theory Spec2Isabelle
  imports Main
begin

section \<open>Python strings and values\<close>

text \<open>
  A Python \<open>str\<close> is a list of code points. Every string literal of
  \<open>homeassistant/util/unit_system.py\<close> lies in U+0000..U+00FF, so a code point is a
  \<open>char\<close> here (the degree sign is \<open>CHR 0xB0\<close>, the micro sign \<open>CHR 0xB5\<close>, the
  superscript three \<open>CHR 0xB3\<close>).
\<close>

text \<open>\<open>sep.join(xs)\<close> of Python.\<close>

fun str_join :: "string \<Rightarrow> string list \<Rightarrow> string" where
  "str_join sep [] = []"
| "str_join sep [x] = x"
| "str_join sep (x # y # ys) = x @ sep @ str_join sep (y # ys)"

text \<open>
  \<open>str.lower()\<close> on one code point of U+0000..U+00FF: the upper-case letters there are
  A..Z and U+00C0..U+00DE without the multiplication sign U+00D7, and each one is 32
  below its lower-case letter.
\<close>

definition lower_char :: "char \<Rightarrow> char" where
  "lower_char c =
     (let n = (of_char c :: nat)
      in if (65 \<le> n \<and> n \<le> 90) \<or> (192 \<le> n \<and> n \<le> 222 \<and> n \<noteq> 215)
         then char_of (n + 32) else c)"

text \<open>
  The values a caller can pass where the source annotates \<open>float\<close>: Python checks
  nothing at the call. The type \<open>'f\<close> stands for the IEEE doubles.
\<close>

datatype 'f pyval = PyNone | PyBool bool | PyInt int | PyFloat 'f | PyStr string

text \<open>
  \<open>isinstance(v, numbers.Number)\<close>: \<open>int\<close> and \<open>float\<close> are registered numbers and
  \<open>bool\<close> is a subclass of \<open>int\<close>; \<open>None\<close> and \<open>str\<close> are not numbers.
\<close>

fun isinstance_Number :: "'f pyval \<Rightarrow> bool" where
  "isinstance_Number PyNone = False"
| "isinstance_Number (PyBool b) = True"
| "isinstance_Number (PyInt i) = True"
| "isinstance_Number (PyFloat x) = True"
| "isinstance_Number (PyStr s) = False"

text \<open>The decimal digits of a natural number, most significant first.\<close>

function str_nat :: "nat \<Rightarrow> string" where
  "str_nat n =
     (if n < 10 then [char_of (48 + n)]
      else str_nat (n div 10) @ [char_of (48 + n mod 10)])"
  by pat_completeness auto
termination
  by (relation "measure id") auto

text \<open>
  \<open>str(v)\<close>, which the f-string \<open>{v!s}\<close> calls. The shortest round-trip rendering of a
  double is not modelled; it is the parameter \<open>float_str\<close>.
\<close>

fun py_str :: "('f \<Rightarrow> string) \<Rightarrow> 'f pyval \<Rightarrow> string" where
  "py_str float_str PyNone = ''None''"
| "py_str float_str (PyBool b) = (if b then ''True'' else ''False'')"
| "py_str float_str (PyInt i) =
     (if i < 0 then CHR ''-'' # str_nat (nat (- i)) else str_nat (nat i))"
| "py_str float_str (PyFloat x) = float_str x"
| "py_str float_str (PyStr s) = s"

text \<open>The exceptions of the module; \<open>Invalid\<close> is \<open>voluptuous.Invalid\<close>.\<close>

datatype error = ValueError string | TypeError string | Invalid

section \<open>Constants\<close>

definition CONF_UNIT_SYSTEM_IMPERIAL :: string where
  "CONF_UNIT_SYSTEM_IMPERIAL = ''imperial''"

definition CONF_UNIT_SYSTEM_METRIC :: string where
  "CONF_UNIT_SYSTEM_METRIC = ''metric''"

definition CONF_UNIT_SYSTEM_US_CUSTOMARY :: string where
  "CONF_UNIT_SYSTEM_US_CUSTOMARY = ''us_customary''"

text \<open>
  Modelled from the spec: the category names of \<open>homeassistant.const\<close>, which is not
  among the sources. The spec names the seven categories by the keys of the exported
  mapping.
\<close>

definition LENGTH :: string where "LENGTH = ''length''"
definition ACCUMULATED_PRECIPITATION :: string where
  "ACCUMULATED_PRECIPITATION = ''accumulated_precipitation''"
definition MASS :: string where "MASS = ''mass''"
definition PRESSURE :: string where "PRESSURE = ''pressure''"
definition TEMPERATURE :: string where "TEMPERATURE = ''temperature''"
definition VOLUME :: string where "VOLUME = ''volume''"
definition WIND_SPEED :: string where "WIND_SPEED = ''wind_speed''"

text \<open>
  Modelled from the spec: \<open>UNIT_NOT_RECOGNIZED_TEMPLATE.format(unit, unit_type)\<close>; the
  template is a constant of \<open>homeassistant.const\<close>, which is not among the sources. The
  spec renders an invalid pair as \<open>unit '<unit>' is not a recognized <category> unit\<close>.
\<close>

definition UNIT_NOT_RECOGNIZED_TEMPLATE_format :: "string \<Rightarrow> string \<Rightarrow> string" where
  "UNIT_NOT_RECOGNIZED_TEMPLATE_format unit unit_type =
     ''unit '' @ [CHR 0x27] @ unit @ [CHR 0x27] @ '' is not a recognized '' @ unit_type @ '' unit''"

text \<open>
  Modelled from the spec: the unit constants of \<open>homeassistant.const\<close>, which is not
  among the sources. The spec gives the units of the two canonical bundles in the symbol
  forms of the unit enumerations below.
\<close>

definition TEMP_CELSIUS :: string where "TEMP_CELSIUS = [CHR 0xB0, CHR ''C'']"
definition TEMP_FAHRENHEIT :: string where "TEMP_FAHRENHEIT = [CHR 0xB0, CHR ''F'']"
definition LENGTH_KILOMETERS :: string where "LENGTH_KILOMETERS = ''km''"
definition LENGTH_MILES :: string where "LENGTH_MILES = ''mi''"
definition LENGTH_MILLIMETERS :: string where "LENGTH_MILLIMETERS = ''mm''"
definition LENGTH_INCHES :: string where "LENGTH_INCHES = ''in''"
definition SPEED_METERS_PER_SECOND :: string where "SPEED_METERS_PER_SECOND = ''m/s''"
definition SPEED_MILES_PER_HOUR :: string where "SPEED_MILES_PER_HOUR = ''mph''"
definition VOLUME_LITERS :: string where "VOLUME_LITERS = ''L''"
definition VOLUME_GALLONS :: string where "VOLUME_GALLONS = ''gal''"
definition MASS_GRAMS :: string where "MASS_GRAMS = ''g''"
definition MASS_POUNDS :: string where "MASS_POUNDS = ''lb''"
definition PRESSURE_PA :: string where "PRESSURE_PA = ''Pa''"
definition PRESSURE_PSI :: string where "PRESSURE_PSI = ''psi''"

section \<open>The unit enumerations\<close>

text \<open>
  Each \<open>StrEnum\<close> is the list of its members' values, in the order of the class body;
  iterating the class visits them in this order.
\<close>

definition LengthUnit :: "string list" where
  "LengthUnit = [''mm'', ''cm'', ''m'', ''km'', ''in'', ''ft'', ''yd'', ''mi'']"

definition MassUnit :: "string list" where
  "MassUnit = [''g'', ''kg'', ''mg'', [CHR 0xB5, CHR ''g''], ''oz'', ''lb'']"

definition PressureUnit :: "string list" where
  "PressureUnit =
     [''Pa'', ''hPa'', ''kPa'', ''bar'', ''cbar'', ''mbar'', ''mmHg'', ''inHg'', ''psi'']"

definition VolumeUnit :: "string list" where
  "VolumeUnit =
     [''L'', ''mL'', [CHR ''m'', CHR 0xB3], [CHR ''f'', CHR ''t'', CHR 0xB3], ''gal'',
      ''fl. oz.'']"

definition SpeedUnit :: "string list" where
  "SpeedUnit = [''ft/s'', ''m/s'', ''km/h'', ''kn'', ''mph'']"

definition TemperatureUnit :: "string list" where
  "TemperatureUnit = [[CHR 0xB0, CHR ''C''], [CHR 0xB0, CHR ''F''], ''K'']"

definition LENGTH_UNITS :: "string set" where "LENGTH_UNITS = set LengthUnit"
definition MASS_UNITS :: "string set" where "MASS_UNITS = set MassUnit"
definition PRESSURE_UNITS :: "string set" where "PRESSURE_UNITS = set PressureUnit"
definition VOLUME_UNITS :: "string set" where "VOLUME_UNITS = set VolumeUnit"
definition WIND_SPEED_UNITS :: "string set" where "WIND_SPEED_UNITS = set SpeedUnit"
definition TEMPERATURE_UNITS :: "string set" where "TEMPERATURE_UNITS = set TemperatureUnit"

definition is_valid_unit :: "string \<Rightarrow> string \<Rightarrow> bool" where
  "is_valid_unit unit unit_type =
     (if unit_type = LENGTH then unit \<in> LENGTH_UNITS
      else if unit_type = ACCUMULATED_PRECIPITATION then unit \<in> LENGTH_UNITS
      else if unit_type = WIND_SPEED then unit \<in> WIND_SPEED_UNITS
      else if unit_type = TEMPERATURE then unit \<in> TEMPERATURE_UNITS
      else if unit_type = MASS then unit \<in> MASS_UNITS
      else if unit_type = VOLUME then unit \<in> VOLUME_UNITS
      else if unit_type = PRESSURE then unit \<in> PRESSURE_UNITS
      else False)"

section \<open>The class UnitSystem\<close>

text \<open>
  An instance is never mutated after \<open>__init__\<close>, so an object is its identity together
  with its attributes. \<open>oid\<close> is the identity that Python's \<open>is\<close> compares; \<open>priv_name\<close>
  is the attribute \<open>_name\<close>.
\<close>

record UnitSystem =
  oid :: nat
  priv_name :: string
  accumulated_precipitation_unit :: string
  temperature_unit :: string
  length_unit :: string
  mass_unit :: string
  pressure_unit :: string
  volume_unit :: string
  wind_speed_unit :: string

text \<open>
  \<open>UnitSystem.__init__\<close>. The first argument is the identity of the freshly allocated
  \<open>self\<close>. When \<open>errors\<close> is not the empty string the call raises and \<open>self\<close> is never
  bound to a name; otherwise the eight attributes are set. The parameter \<open>length\<close> of
  the source is \<open>length'\<close> here.
\<close>

definition UnitSystem_init ::
  "nat \<Rightarrow> string \<Rightarrow> string \<Rightarrow> string \<Rightarrow> string \<Rightarrow> string \<Rightarrow> string \<Rightarrow> string \<Rightarrow> string
     \<Rightarrow> error + UnitSystem" where
  "UnitSystem_init self name temperature length' wind_speed volume mass pressure
       accumulated_precipitation =
     (let errors =
        str_join '', ''
          (map (\<lambda>(unit, unit_type). UNIT_NOT_RECOGNIZED_TEMPLATE_format unit unit_type)
            (filter (\<lambda>(unit, unit_type). \<not> is_valid_unit unit unit_type)
              [(accumulated_precipitation, ACCUMULATED_PRECIPITATION),
               (temperature, TEMPERATURE),
               (length', LENGTH),
               (wind_speed, WIND_SPEED),
               (volume, VOLUME),
               (mass, MASS),
               (pressure, PRESSURE)]))
      in if errors \<noteq> [] then Inl (ValueError errors)
         else Inr \<lparr>oid = self,
                   priv_name = name,
                   accumulated_precipitation_unit = accumulated_precipitation,
                   temperature_unit = temperature,
                   length_unit = length',
                   mass_unit = mass,
                   pressure_unit = pressure,
                   volume_unit = volume,
                   wind_speed_unit = wind_speed\<rparr>)"

text \<open>
  The module creates its two instances when it is imported: two calls of the class, so
  two distinct identities, here 0 and 1. Had \<open>__init__\<close> raised, the import would have
  failed; both calls succeed, as the basic facts below show.
\<close>

definition METRIC_SYSTEM_init :: "error + UnitSystem" where
  "METRIC_SYSTEM_init =
     UnitSystem_init 0 CONF_UNIT_SYSTEM_METRIC TEMP_CELSIUS LENGTH_KILOMETERS
       SPEED_METERS_PER_SECOND VOLUME_LITERS MASS_GRAMS PRESSURE_PA LENGTH_MILLIMETERS"

definition US_CUSTOMARY_SYSTEM_init :: "error + UnitSystem" where
  "US_CUSTOMARY_SYSTEM_init =
     UnitSystem_init 1 CONF_UNIT_SYSTEM_US_CUSTOMARY TEMP_FAHRENHEIT LENGTH_MILES
       SPEED_MILES_PER_HOUR VOLUME_GALLONS MASS_POUNDS PRESSURE_PSI LENGTH_INCHES"

definition METRIC_SYSTEM :: UnitSystem where
  "METRIC_SYSTEM = projr METRIC_SYSTEM_init"

definition US_CUSTOMARY_SYSTEM :: UnitSystem where
  "US_CUSTOMARY_SYSTEM = projr US_CUSTOMARY_SYSTEM_init"

definition IMPERIAL_SYSTEM :: UnitSystem where
  "IMPERIAL_SYSTEM = US_CUSTOMARY_SYSTEM"

text \<open>
  Modelled from the spec: \<open>report(message, error_if_core)\<close> of
  \<open>homeassistant.helpers.frame\<close>, which is not among the sources. The spec describes a
  diagnostics sink that is fire-and-forget, never blocks and never raises back to the
  caller: the sink is the list of the notices it received, oldest first.
\<close>

type_synonym sink = "(string \<times> bool) list"

definition report :: "string \<Rightarrow> bool \<Rightarrow> sink \<Rightarrow> sink" where
  "report what error_if_core s = s @ [(what, error_if_core)]"

text \<open>The two deprecated properties. Each returns its value and the sink after the call.\<close>

definition UnitSystem_name :: "UnitSystem \<Rightarrow> sink \<Rightarrow> string \<times> sink" where
  "UnitSystem_name self s =
     (let s' = report
            (''accesses the `name` property of the unit system. '' @
             ''This is deprecated and will stop working in Home Assistant 2023.1. '' @
             ''Please adjust to use instance check instead.'')
            False s
      in if oid self = oid IMPERIAL_SYSTEM then (CONF_UNIT_SYSTEM_IMPERIAL, s')
         else (priv_name self, s'))"

definition UnitSystem_is_metric :: "UnitSystem \<Rightarrow> sink \<Rightarrow> bool \<times> sink" where
  "UnitSystem_is_metric self s =
     (let s' = report
            (''accesses the `is_metric` property of the unit system. '' @
             ''This is deprecated and will stop working in Home Assistant 2023.1. '' @
             ''Please adjust to use instance check instead.'')
            False s
      in (oid self = oid METRIC_SYSTEM, s'))"

section \<open>Conversion methods\<close>

text \<open>
  The converters of \<open>.unit_conversion\<close> are external: \<open>convert\<close> is a parameter that
  gives, for a converter class and the three arguments of its \<open>convert\<close>, the outcome
  of the call (a value of \<open>'r\<close>, which may be a result or a failure of the converter).
  Every call is recorded in a log, oldest first.
\<close>

datatype converter =
  DistanceConverter | PressureConverter | SpeedConverter | TemperatureConverter
  | VolumeConverter

type_synonym 'f call = "converter \<times> 'f pyval \<times> string \<times> string"

definition call_convert ::
  "(converter \<Rightarrow> 'f pyval \<Rightarrow> string \<Rightarrow> string \<Rightarrow> 'r) \<Rightarrow> converter \<Rightarrow> 'f pyval \<Rightarrow> string \<Rightarrow> string
     \<Rightarrow> 'f call list \<Rightarrow> (error + 'r) \<times> 'f call list" where
  "call_convert convert c v from_unit to_unit log =
     (Inr (convert c v from_unit to_unit), log @ [(c, v, from_unit, to_unit)])"

definition not_numeric :: "('f \<Rightarrow> string) \<Rightarrow> 'f pyval \<Rightarrow> error" where
  "not_numeric float_str v = TypeError (py_str float_str v @ '' is not a numeric value.'')"

definition UnitSystem_temperature ::
  "('f \<Rightarrow> string) \<Rightarrow> (converter \<Rightarrow> 'f pyval \<Rightarrow> string \<Rightarrow> string \<Rightarrow> 'r) \<Rightarrow> UnitSystem \<Rightarrow> 'f pyval
     \<Rightarrow> string \<Rightarrow> 'f call list \<Rightarrow> (error + 'r) \<times> 'f call list" where
  "UnitSystem_temperature float_str convert self temperature from_unit log =
     (if \<not> isinstance_Number temperature then (Inl (not_numeric float_str temperature), log)
      else call_convert convert TemperatureConverter temperature from_unit
             (temperature_unit self) log)"

definition UnitSystem_length ::
  "('f \<Rightarrow> string) \<Rightarrow> (converter \<Rightarrow> 'f pyval \<Rightarrow> string \<Rightarrow> string \<Rightarrow> 'r) \<Rightarrow> UnitSystem \<Rightarrow> 'f pyval
     \<Rightarrow> string \<Rightarrow> 'f call list \<Rightarrow> (error + 'r) \<times> 'f call list" where
  "UnitSystem_length float_str convert self length' from_unit log =
     (if \<not> isinstance_Number length' then (Inl (not_numeric float_str length'), log)
      else call_convert convert DistanceConverter length' from_unit (length_unit self) log)"

definition UnitSystem_accumulated_precipitation ::
  "('f \<Rightarrow> string) \<Rightarrow> (converter \<Rightarrow> 'f pyval \<Rightarrow> string \<Rightarrow> string \<Rightarrow> 'r) \<Rightarrow> UnitSystem \<Rightarrow> 'f pyval
     \<Rightarrow> string \<Rightarrow> 'f call list \<Rightarrow> (error + 'r) \<times> 'f call list" where
  "UnitSystem_accumulated_precipitation float_str convert self precip from_unit log =
     (if \<not> isinstance_Number precip then (Inl (not_numeric float_str precip), log)
      else call_convert convert DistanceConverter precip from_unit
             (accumulated_precipitation_unit self) log)"

definition UnitSystem_pressure ::
  "('f \<Rightarrow> string) \<Rightarrow> (converter \<Rightarrow> 'f pyval \<Rightarrow> string \<Rightarrow> string \<Rightarrow> 'r) \<Rightarrow> UnitSystem \<Rightarrow> 'f pyval
     \<Rightarrow> string \<Rightarrow> 'f call list \<Rightarrow> (error + 'r) \<times> 'f call list" where
  "UnitSystem_pressure float_str convert self pressure from_unit log =
     (if \<not> isinstance_Number pressure then (Inl (not_numeric float_str pressure), log)
      else call_convert convert PressureConverter pressure from_unit (pressure_unit self) log)"

definition UnitSystem_wind_speed ::
  "('f \<Rightarrow> string) \<Rightarrow> (converter \<Rightarrow> 'f pyval \<Rightarrow> string \<Rightarrow> string \<Rightarrow> 'r) \<Rightarrow> UnitSystem \<Rightarrow> 'f pyval
     \<Rightarrow> string \<Rightarrow> 'f call list \<Rightarrow> (error + 'r) \<times> 'f call list" where
  "UnitSystem_wind_speed float_str convert self wind_speed from_unit log =
     (if \<not> isinstance_Number wind_speed then (Inl (not_numeric float_str wind_speed), log)
      else call_convert convert SpeedConverter wind_speed from_unit (wind_speed_unit self) log)"

definition UnitSystem_volume ::
  "('f \<Rightarrow> string) \<Rightarrow> (converter \<Rightarrow> 'f pyval \<Rightarrow> string \<Rightarrow> string \<Rightarrow> 'r) \<Rightarrow> UnitSystem \<Rightarrow> 'f pyval
     \<Rightarrow> string \<Rightarrow> 'f call list \<Rightarrow> (error + 'r) \<times> 'f call list" where
  "UnitSystem_volume float_str convert self volume from_unit log =
     (if \<not> isinstance_Number volume then (Inl (not_numeric float_str volume), log)
      else call_convert convert VolumeConverter volume from_unit (volume_unit self) log)"

text \<open>\<open>as_dict\<close>: the dict display, whose keys are inserted in the order written.\<close>

definition as_dict :: "UnitSystem \<Rightarrow> (string \<rightharpoonup> string)" where
  "as_dict self =
     [LENGTH \<mapsto> length_unit self,
      ACCUMULATED_PRECIPITATION \<mapsto> accumulated_precipitation_unit self,
      MASS \<mapsto> mass_unit self,
      PRESSURE \<mapsto> pressure_unit self,
      TEMPERATURE \<mapsto> temperature_unit self,
      VOLUME \<mapsto> volume_unit self,
      WIND_SPEED \<mapsto> wind_speed_unit self]"

section \<open>Lookup and validation of keys\<close>

definition get_unit_system :: "string \<Rightarrow> error + UnitSystem" where
  "get_unit_system key =
     (if key = CONF_UNIT_SYSTEM_US_CUSTOMARY then Inr US_CUSTOMARY_SYSTEM
      else if key = CONF_UNIT_SYSTEM_METRIC then Inr METRIC_SYSTEM
      else Inl (ValueError (''`'' @ key @ ''` is not a valid unit system key'')))"

definition deprecated_unit_system :: "string \<Rightarrow> string" where
  "deprecated_unit_system v =
     (if v = CONF_UNIT_SYSTEM_IMPERIAL then CONF_UNIT_SYSTEM_US_CUSTOMARY else v)"

text \<open>
  The validators of voluptuous that the module composes. \<open>vol.Lower\<close> is
  \<open>str(v).lower()\<close>; \<open>vol.Any\<close> of literals returns the value when it equals one of
  them, tried in order, and raises \<open>Invalid\<close> otherwise; \<open>vol.All\<close> passes the output
  of each validator to the next and stops at the first that raises.
\<close>

definition Lower :: "string \<Rightarrow> error + string" where
  "Lower v = Inr (map lower_char v)"

fun Any_literals :: "string list \<Rightarrow> string \<Rightarrow> error + string" where
  "Any_literals [] v = Inl Invalid"
| "Any_literals (x # xs) v = (if v = x then Inr v else Any_literals xs v)"

fun All_validators :: "(string \<Rightarrow> error + string) list \<Rightarrow> string \<Rightarrow> error + string" where
  "All_validators [] v = Inr v"
| "All_validators (f # fs) v =
     (case f v of Inl e \<Rightarrow> Inl e | Inr v' \<Rightarrow> All_validators fs v')"

definition validate_unit_system :: "string \<Rightarrow> error + string" where
  "validate_unit_system =
     All_validators
       [Lower,
        (\<lambda>v. Inr (deprecated_unit_system v)),
        Any_literals [CONF_UNIT_SYSTEM_METRIC, CONF_UNIT_SYSTEM_US_CUSTOMARY]]"

section \<open>Auxiliary definitions\<close>

text \<open>
  The tuple of (unit, category) pairs that the generator expression of \<open>__init__\<close>
  iterates over, in the order written there.
\<close>

definition unit_pairs ::
  "string \<Rightarrow> string \<Rightarrow> string \<Rightarrow> string \<Rightarrow> string \<Rightarrow> string \<Rightarrow> string
     \<Rightarrow> (string \<times> string) list" where
  "unit_pairs t l w v m p ap = [(ap, ACCUMULATED_PRECIPITATION), (t, TEMPERATURE), (l, LENGTH), (w, WIND_SPEED),
       (v, VOLUME), (m, MASS), (p, PRESSURE)]"

text \<open>
  The accumulated-precipitation conversion in the spec's words: the value is handed to
  the generic length (distance) converter, with the bundle's accumulated-precipitation
  unit as the target unit.
\<close>

definition spec_accumulated_precipitation ::
  "(converter \<Rightarrow> 'f pyval \<Rightarrow> string \<Rightarrow> string \<Rightarrow> 'r) \<Rightarrow> UnitSystem \<Rightarrow> 'f pyval \<Rightarrow> string
     \<Rightarrow> 'f call list \<Rightarrow> (error + 'r) \<times> 'f call list" where
  "spec_accumulated_precipitation convert self precip from_unit log =
     (Inr (convert DistanceConverter precip from_unit (accumulated_precipitation_unit self)),
      log @ [(DistanceConverter, precip, from_unit, accumulated_precipitation_unit self)])"

section \<open>Basic facts\<close>

lemmas category_defs =
  LENGTH_def ACCUMULATED_PRECIPITATION_def MASS_def PRESSURE_def TEMPERATURE_def VOLUME_def
  WIND_SPEED_def

lemmas unit_set_defs =
  LENGTH_UNITS_def MASS_UNITS_def PRESSURE_UNITS_def VOLUME_UNITS_def WIND_SPEED_UNITS_def
  TEMPERATURE_UNITS_def LengthUnit_def MassUnit_def PressureUnit_def VolumeUnit_def
  SpeedUnit_def TemperatureUnit_def

lemma str_join_Nil_iff:
  "\<forall>x\<in>set xs. x \<noteq> [] \<Longrightarrow> str_join sep xs = [] \<longleftrightarrow> xs = []"
  by (induction sep xs rule: str_join.induct) auto

lemma str_join_mentions:
  "x \<in> set xs \<Longrightarrow> \<exists>pre post. str_join sep xs = pre @ x @ post"
proof (induction sep xs rule: str_join.induct)
  case (1 sep)
  then show ?case by simp
next
  case (2 sep y)
  then have "str_join sep [y] = [] @ x @ []" by simp
  then show ?case by blast
next
  case (3 sep y z zs)
  show ?case
  proof (cases "x = y")
    case True
    then have "str_join sep (y # z # zs) = [] @ x @ (sep @ str_join sep (z # zs))" by simp
    then show ?thesis by blast
  next
    case False
    with 3 obtain pre post where "str_join sep (z # zs) = pre @ x @ post" by auto
    then have "str_join sep (y # z # zs) = (y @ sep @ pre) @ x @ post" by simp
    then show ?thesis by blast
  qed
qed

lemma format_not_Nil: "UNIT_NOT_RECOGNIZED_TEMPLATE_format u c \<noteq> []"
  by (simp add: UNIT_NOT_RECOGNIZED_TEMPLATE_format_def)

lemmas canonical_unit_defs =
  CONF_UNIT_SYSTEM_METRIC_def CONF_UNIT_SYSTEM_US_CUSTOMARY_def CONF_UNIT_SYSTEM_IMPERIAL_def
  TEMP_CELSIUS_def TEMP_FAHRENHEIT_def LENGTH_KILOMETERS_def LENGTH_MILES_def
  LENGTH_MILLIMETERS_def LENGTH_INCHES_def SPEED_METERS_PER_SECOND_def
  SPEED_MILES_PER_HOUR_def VOLUME_LITERS_def VOLUME_GALLONS_def MASS_GRAMS_def MASS_POUNDS_def
  PRESSURE_PA_def PRESSURE_PSI_def

lemma init_unfold:
  "UnitSystem_init self n t l w v m p ap =
     (let errors = str_join '', '' (map (\<lambda>(unit, unit_type). UNIT_NOT_RECOGNIZED_TEMPLATE_format unit unit_type)
            (filter (\<lambda>(unit, unit_type). \<not> is_valid_unit unit unit_type) (unit_pairs t l w v m p ap)))
      in if errors \<noteq> [] then Inl (ValueError errors)
         else Inr \<lparr>oid = self, priv_name = n, accumulated_precipitation_unit = ap,
                   temperature_unit = t, length_unit = l, mass_unit = m, pressure_unit = p,
                   volume_unit = v, wind_speed_unit = w\<rparr>)"
  unfolding UnitSystem_init_def unit_pairs_def by (rule refl)


lemma is_valid_unit_eval:
  "is_valid_unit u ACCUMULATED_PRECIPITATION = (u \<in> LENGTH_UNITS)"
  "is_valid_unit u TEMPERATURE = (u \<in> TEMPERATURE_UNITS)"
  "is_valid_unit u LENGTH = (u \<in> LENGTH_UNITS)"
  "is_valid_unit u WIND_SPEED = (u \<in> WIND_SPEED_UNITS)"
  "is_valid_unit u VOLUME = (u \<in> VOLUME_UNITS)"
  "is_valid_unit u MASS = (u \<in> MASS_UNITS)"
  "is_valid_unit u PRESSURE = (u \<in> PRESSURE_UNITS)"
  by (simp_all add: is_valid_unit_def category_defs)

lemma init_all_invalid:
  "\<exists>e. UnitSystem_init 9 ''x'' ''T'' ''L'' ''W'' ''V'' ''M'' ''P'' ''A'' = Inl e"
  by (simp add: UnitSystem_init_def is_valid_unit_eval unit_set_defs
      UNIT_NOT_RECOGNIZED_TEMPLATE_format_def)

lemma METRIC_SYSTEM_init_eq:
  "METRIC_SYSTEM_init =
     Inr \<lparr>oid = 0, priv_name = ''metric'', accumulated_precipitation_unit = ''mm'',
          temperature_unit = [CHR 0xB0, CHR ''C''], length_unit = ''km'', mass_unit = ''g'',
          pressure_unit = ''Pa'', volume_unit = ''L'', wind_speed_unit = ''m/s''\<rparr>"
  by (simp add: METRIC_SYSTEM_init_def UnitSystem_init_def canonical_unit_defs
      is_valid_unit_eval unit_set_defs)

lemma US_CUSTOMARY_SYSTEM_init_eq:
  "US_CUSTOMARY_SYSTEM_init =
     Inr \<lparr>oid = 1, priv_name = ''us_customary'', accumulated_precipitation_unit = ''in'',
          temperature_unit = [CHR 0xB0, CHR ''F''], length_unit = ''mi'', mass_unit = ''lb'',
          pressure_unit = ''psi'', volume_unit = ''gal'', wind_speed_unit = ''mph''\<rparr>"
  by (simp add: US_CUSTOMARY_SYSTEM_init_def UnitSystem_init_def canonical_unit_defs
      is_valid_unit_eval unit_set_defs)

lemma METRIC_SYSTEM_eq:
  "METRIC_SYSTEM =
     \<lparr>oid = 0, priv_name = ''metric'', accumulated_precipitation_unit = ''mm'',
      temperature_unit = [CHR 0xB0, CHR ''C''], length_unit = ''km'', mass_unit = ''g'',
      pressure_unit = ''Pa'', volume_unit = ''L'', wind_speed_unit = ''m/s''\<rparr>"
  by (simp add: METRIC_SYSTEM_def METRIC_SYSTEM_init_eq)

lemma US_CUSTOMARY_SYSTEM_eq:
  "US_CUSTOMARY_SYSTEM =
     \<lparr>oid = 1, priv_name = ''us_customary'', accumulated_precipitation_unit = ''in'',
      temperature_unit = [CHR 0xB0, CHR ''F''], length_unit = ''mi'', mass_unit = ''lb'',
      pressure_unit = ''psi'', volume_unit = ''gal'', wind_speed_unit = ''mph''\<rparr>"
  by (simp add: US_CUSTOMARY_SYSTEM_def US_CUSTOMARY_SYSTEM_init_eq)

lemma lower_char_idem: "lower_char (lower_char c) = lower_char c"
  by (auto simp: lower_char_def Let_def)

lemma Lower_examples:
  "map lower_char ''IMPERIAL'' = ''imperial''"
  "map lower_char ''Imperial'' = ''imperial''"
  "map lower_char ''imperial'' = ''imperial''"
  "map lower_char ''metric'' = ''metric''"
  "map lower_char ''Metric'' = ''metric''"
  "map lower_char ''US_CUSTOMARY'' = ''us_customary''"
  "map lower_char ''kelvin-system'' = ''kelvin-system''"
  by code_simp+

lemmas method_defs =
  UnitSystem_temperature_def UnitSystem_length_def UnitSystem_accumulated_precipitation_def
  UnitSystem_pressure_def UnitSystem_wind_speed_def UnitSystem_volume_def

section \<open>Construction\<close>

text \<open>
  C1. Construction succeeds exactly when each of the seven units is valid for its
  category, and then stores the name and the seven units. When some unit is invalid the
  result is one \<open>ValueError\<close> whose message contains the rendering of every invalid
  (unit, category) pair; no object is returned.
\<close>

theorem UnitSystem_init_all_or_nothing:
  "(is_valid_unit ap ACCUMULATED_PRECIPITATION \<and> is_valid_unit t TEMPERATURE \<and>
    is_valid_unit l LENGTH \<and> is_valid_unit w WIND_SPEED \<and> is_valid_unit v VOLUME \<and>
    is_valid_unit m MASS \<and> is_valid_unit p PRESSURE
    \<longrightarrow> UnitSystem_init self n t l w v m p ap =
          Inr \<lparr>oid = self, priv_name = n, accumulated_precipitation_unit = ap,
               temperature_unit = t, length_unit = l, mass_unit = m, pressure_unit = p,
               volume_unit = v, wind_speed_unit = w\<rparr>) \<and>
   (\<not> (is_valid_unit ap ACCUMULATED_PRECIPITATION \<and> is_valid_unit t TEMPERATURE \<and>
       is_valid_unit l LENGTH \<and> is_valid_unit w WIND_SPEED \<and> is_valid_unit v VOLUME \<and>
       is_valid_unit m MASS \<and> is_valid_unit p PRESSURE)
    \<longrightarrow> (\<exists>msg. UnitSystem_init self n t l w v m p ap = Inl (ValueError msg) \<and>
           (\<forall>(u, c) \<in> set [(ap, ACCUMULATED_PRECIPITATION), (t, TEMPERATURE), (l, LENGTH),
                             (w, WIND_SPEED), (v, VOLUME), (m, MASS), (p, PRESSURE)].
              \<not> is_valid_unit u c \<longrightarrow>
              (\<exists>pre post. msg = pre @ UNIT_NOT_RECOGNIZED_TEMPLATE_format u c @ post))))"
proof -
  let ?P = "\<lambda>(u, c). \<not> is_valid_unit u c"
  let ?F = "\<lambda>(u, c). UNIT_NOT_RECOGNIZED_TEMPLATE_format u c"
  let ?ps = "unit_pairs t l w v m p ap"
  let ?msgs = "map ?F (filter ?P ?ps)"
  let ?msg = "str_join '', '' ?msgs"
  let ?all = "is_valid_unit ap ACCUMULATED_PRECIPITATION \<and> is_valid_unit t TEMPERATURE \<and>
    is_valid_unit l LENGTH \<and> is_valid_unit w WIND_SPEED \<and> is_valid_unit v VOLUME \<and>
    is_valid_unit m MASS \<and> is_valid_unit p PRESSURE"
  have ne: "\<forall>x\<in>set ?msgs. x \<noteq> []"
    by (auto simp: format_not_Nil)
  have all_iff: "?all \<longleftrightarrow> (\<forall>x\<in>set ?ps. \<not> ?P x)"
    by (simp add: unit_pairs_def)
  have "?msg = [] \<longleftrightarrow> filter ?P ?ps = []"
    using str_join_Nil_iff [OF ne] by simp
  then have msg_iff: "?msg = [] \<longleftrightarrow> ?all"
    unfolding all_iff filter_empty_conv by simp
  have good: "UnitSystem_init self n t l w v m p ap =
          Inr \<lparr>oid = self, priv_name = n, accumulated_precipitation_unit = ap,
               temperature_unit = t, length_unit = l, mass_unit = m, pressure_unit = p,
               volume_unit = v, wind_speed_unit = w\<rparr>" if "?all"
    using that msg_iff by (simp add: init_unfold)
  have bad: "UnitSystem_init self n t l w v m p ap = Inl (ValueError ?msg)" if "\<not> ?all"
    using that msg_iff by (simp add: init_unfold Let_def)
  have mention: "\<exists>pre post. ?msg = pre @ UNIT_NOT_RECOGNIZED_TEMPLATE_format u c @ post"
    if "(u, c) \<in> set ?ps" "\<not> is_valid_unit u c" for u c
  proof -
    from that have "(u, c) \<in> set (filter ?P ?ps)" by simp
    then have "?F (u, c) \<in> ?F ` set (filter ?P ?ps)" by (rule imageI)
    then have "?F (u, c) \<in> set ?msgs" by (simp only: set_map)
    then show ?thesis using str_join_mentions [of "?F (u, c)" ?msgs "'', ''"] by simp
  qed
  have mention_all: "\<forall>(u, c) \<in> set ?ps. \<not> is_valid_unit u c \<longrightarrow>
      (\<exists>pre post. ?msg = pre @ UNIT_NOT_RECOGNIZED_TEMPLATE_format u c @ post)"
    using mention by blast
  show ?thesis
  proof (intro conjI impI)
    assume ?all then show "UnitSystem_init self n t l w v m p ap =
          Inr \<lparr>oid = self, priv_name = n, accumulated_precipitation_unit = ap,
               temperature_unit = t, length_unit = l, mass_unit = m, pressure_unit = p,
               volume_unit = v, wind_speed_unit = w\<rparr>" by (rule good)
  next
    assume "\<not> ?all"
    then have "UnitSystem_init self n t l w v m p ap = Inl (ValueError ?msg)" by (rule bad)
    with mention_all show "\<exists>msg. UnitSystem_init self n t l w v m p ap = Inl (ValueError msg) \<and>
           (\<forall>(u, c) \<in> set [(ap, ACCUMULATED_PRECIPITATION), (t, TEMPERATURE), (l, LENGTH),
                             (w, WIND_SPEED), (v, VOLUME), (m, MASS), (p, PRESSURE)].
              \<not> is_valid_unit u c \<longrightarrow>
              (\<exists>pre post. msg = pre @ UNIT_NOT_RECOGNIZED_TEMPLATE_format u c @ post))"
      unfolding unit_pairs_def by blast
  qed
qed

theorem UnitSystem_init_all_or_nothing_witness:
  "UnitSystem_init 5 ''home'' ''K'' ''m'' ''kn'' ''mL'' ''kg'' ''bar'' ''in'' =
     Inr \<lparr>oid = 5, priv_name = ''home'', accumulated_precipitation_unit = ''in'',
          temperature_unit = ''K'', length_unit = ''m'', mass_unit = ''kg'',
          pressure_unit = ''bar'', volume_unit = ''mL'', wind_speed_unit = ''kn''\<rparr> \<and>
   (\<exists>msg. UnitSystem_init 5 ''home'' ''K'' ''furlong'' ''kn'' ''mL'' ''stone'' ''bar'' ''in'' =
            Inl (ValueError msg) \<and>
          (\<exists>pre post. msg = pre @ ''unit 'furlong' is not a recognized length unit'' @ post) \<and>
          (\<exists>pre post. msg = pre @ ''unit 'stone' is not a recognized mass unit'' @ post))"
proof -
  have ok: "is_valid_unit ''in'' ACCUMULATED_PRECIPITATION \<and> is_valid_unit ''K'' TEMPERATURE \<and>
      is_valid_unit ''m'' LENGTH \<and> is_valid_unit ''kn'' WIND_SPEED \<and>
      is_valid_unit ''mL'' VOLUME \<and> is_valid_unit ''kg'' MASS \<and>
      is_valid_unit ''bar'' PRESSURE"
    by (simp add: is_valid_unit_eval unit_set_defs)
  have l: "\<not> is_valid_unit ''furlong'' LENGTH" and m: "\<not> is_valid_unit ''stone'' MASS"
    by (simp_all add: is_valid_unit_eval unit_set_defs)
  have fl: "UNIT_NOT_RECOGNIZED_TEMPLATE_format ''furlong'' LENGTH =
      ''unit 'furlong' is not a recognized length unit''"
    and fm: "UNIT_NOT_RECOGNIZED_TEMPLATE_format ''stone'' MASS =
      ''unit 'stone' is not a recognized mass unit''"
    by (simp_all add: UNIT_NOT_RECOGNIZED_TEMPLATE_format_def category_defs)
  from ok UnitSystem_init_all_or_nothing [of "''in''" "''K''" "''m''" "''kn''" "''mL''" "''kg''" "''bar''" 5 "''home''"]
  have first: "UnitSystem_init 5 ''home'' ''K'' ''m'' ''kn'' ''mL'' ''kg'' ''bar'' ''in'' =
     Inr \<lparr>oid = 5, priv_name = ''home'', accumulated_precipitation_unit = ''in'',
          temperature_unit = ''K'', length_unit = ''m'', mass_unit = ''kg'',
          pressure_unit = ''bar'', volume_unit = ''mL'', wind_speed_unit = ''kn''\<rparr>"
    by blast
  from l UnitSystem_init_all_or_nothing [of "''in''" "''K''" "''furlong''" "''kn''" "''mL''" "''stone''" "''bar''" 5 "''home''"]
  obtain msg where
    e: "UnitSystem_init 5 ''home'' ''K'' ''furlong'' ''kn'' ''mL'' ''stone'' ''bar'' ''in'' =
          Inl (ValueError msg)"
    and all: "\<forall>(u, c) \<in> set [(''in'', ACCUMULATED_PRECIPITATION), (''K'', TEMPERATURE),
          (''furlong'', LENGTH), (''kn'', WIND_SPEED), (''mL'', VOLUME), (''stone'', MASS),
          (''bar'', PRESSURE)].
        \<not> is_valid_unit u c \<longrightarrow>
        (\<exists>pre post. msg = pre @ UNIT_NOT_RECOGNIZED_TEMPLATE_format u c @ post)"
    by blast
  from all l have "\<exists>pre post. msg = pre @ UNIT_NOT_RECOGNIZED_TEMPLATE_format ''furlong'' LENGTH @ post"
    by simp
  moreover from all m have "\<exists>pre post. msg = pre @ UNIT_NOT_RECOGNIZED_TEMPLATE_format ''stone'' MASS @ post"
    by simp
  ultimately show ?thesis using first e unfolding fl fm by blast
qed

text \<open>
  C9. Whenever construction fails, the message is the renderings of the invalid pairs
  joined by a comma and a space, in the order accumulated precipitation, temperature,
  length, wind speed, volume, mass, pressure, whatever the order of the parameters.
\<close>

theorem UnitSystem_init_error_order:
  "UnitSystem_init self n t l w v m p ap = Inl e \<Longrightarrow>
   e = ValueError
         (str_join '', ''
           (map (\<lambda>(u, c). UNIT_NOT_RECOGNIZED_TEMPLATE_format u c)
             (filter (\<lambda>(u, c). \<not> is_valid_unit u c)
               [(ap, ACCUMULATED_PRECIPITATION), (t, TEMPERATURE), (l, LENGTH),
                (w, WIND_SPEED), (v, VOLUME), (m, MASS), (p, PRESSURE)])))"
proof -
  assume "UnitSystem_init self n t l w v m p ap = Inl e"
  then have "e = ValueError
         (str_join '', ''
           (map (\<lambda>(u, c). UNIT_NOT_RECOGNIZED_TEMPLATE_format u c)
             (filter (\<lambda>(u, c). \<not> is_valid_unit u c) (unit_pairs t l w v m p ap))))"
    by (simp add: init_unfold Let_def split: if_splits)
  then show ?thesis by (simp only: unit_pairs_def)
qed

theorem UnitSystem_init_error_order_witness:
  "UnitSystem_init 9 ''x'' ''T'' ''L'' ''W'' ''V'' ''M'' ''P'' ''A'' =
     Inl (ValueError
       (''unit 'A' is not a recognized accumulated_precipitation unit, '' @
        ''unit 'T' is not a recognized temperature unit, '' @
        ''unit 'L' is not a recognized length unit, '' @
        ''unit 'W' is not a recognized wind_speed unit, '' @
        ''unit 'V' is not a recognized volume unit, '' @
        ''unit 'M' is not a recognized mass unit, '' @
        ''unit 'P' is not a recognized pressure unit''))"
proof -
  from init_all_invalid obtain e where
    e: "UnitSystem_init 9 ''x'' ''T'' ''L'' ''W'' ''V'' ''M'' ''P'' ''A'' = Inl e" ..
  have inv: "\<not> is_valid_unit ''A'' ACCUMULATED_PRECIPITATION" "\<not> is_valid_unit ''T'' TEMPERATURE"
    "\<not> is_valid_unit ''L'' LENGTH" "\<not> is_valid_unit ''W'' WIND_SPEED"
    "\<not> is_valid_unit ''V'' VOLUME" "\<not> is_valid_unit ''M'' MASS"
    "\<not> is_valid_unit ''P'' PRESSURE"
    by (simp_all add: is_valid_unit_eval unit_set_defs)
  from UnitSystem_init_error_order [OF e] have "e = ValueError
         (str_join '', ''
           (map (\<lambda>(u, c). UNIT_NOT_RECOGNIZED_TEMPLATE_format u c)
               [(''A'', ACCUMULATED_PRECIPITATION), (''T'', TEMPERATURE), (''L'', LENGTH),
                (''W'', WIND_SPEED), (''V'', VOLUME), (''M'', MASS), (''P'', PRESSURE)]))"
    by (simp add: inv)
  then have "e = ValueError
       (''unit 'A' is not a recognized accumulated_precipitation unit, '' @
        ''unit 'T' is not a recognized temperature unit, '' @
        ''unit 'L' is not a recognized length unit, '' @
        ''unit 'W' is not a recognized wind_speed unit, '' @
        ''unit 'V' is not a recognized volume unit, '' @
        ''unit 'M' is not a recognized mass unit, '' @
        ''unit 'P' is not a recognized pressure unit'')"
    by (simp add: UNIT_NOT_RECOGNIZED_TEMPLATE_format_def category_defs)
  with e show ?thesis by simp
qed


section \<open>Valid units\<close>

text \<open>
  C8. A unit is valid for accumulated precipitation exactly when it is valid for length:
  both categories are checked against the eight values of \<open>LengthUnit\<close>. The two
  categories are stored separately, and in the metric bundle their units differ.
\<close>

theorem precipitation_units_are_length_units:
  "is_valid_unit u ACCUMULATED_PRECIPITATION = is_valid_unit u LENGTH \<and>
   is_valid_unit u ACCUMULATED_PRECIPITATION =
     (u \<in> {''mm'', ''cm'', ''m'', ''km'', ''in'', ''ft'', ''yd'', ''mi''}) \<and>
   accumulated_precipitation_unit METRIC_SYSTEM \<noteq> length_unit METRIC_SYSTEM"
  by (simp add: is_valid_unit_eval LENGTH_UNITS_def LengthUnit_def METRIC_SYSTEM_eq)

theorem precipitation_units_are_length_units_witness:
  "is_valid_unit ''km'' ACCUMULATED_PRECIPITATION \<and> is_valid_unit ''km'' LENGTH \<and>
   \<not> is_valid_unit ''L'' ACCUMULATED_PRECIPITATION \<and> \<not> is_valid_unit ''L'' LENGTH"
  using precipitation_units_are_length_units [of "''km''"]
    precipitation_units_are_length_units [of "''L''"]
  by auto

section \<open>Lookup by key\<close>

text \<open>
  C3. \<open>get_unit_system\<close> returns the metric instance for the key \<open>metric\<close>, the
  US-customary instance for \<open>us_customary\<close>, and raises a \<open>ValueError\<close> naming the key
  for every other string; the key is compared as it is. The two instances are the
  module's constants, so every call with the same key returns the same object.
\<close>

theorem get_unit_system_cases:
  "get_unit_system ''metric'' = Inr METRIC_SYSTEM \<and>
   get_unit_system ''us_customary'' = Inr US_CUSTOMARY_SYSTEM \<and>
   (key \<noteq> ''metric'' \<and> key \<noteq> ''us_customary'' \<longrightarrow>
      get_unit_system key =
        Inl (ValueError (''`'' @ key @ ''` is not a valid unit system key''))) \<and>
   METRIC_SYSTEM =
     \<lparr>oid = 0, priv_name = ''metric'', accumulated_precipitation_unit = ''mm'',
      temperature_unit = [CHR 0xB0, CHR ''C''], length_unit = ''km'', mass_unit = ''g'',
      pressure_unit = ''Pa'', volume_unit = ''L'', wind_speed_unit = ''m/s''\<rparr> \<and>
   US_CUSTOMARY_SYSTEM =
     \<lparr>oid = 1, priv_name = ''us_customary'', accumulated_precipitation_unit = ''in'',
      temperature_unit = [CHR 0xB0, CHR ''F''], length_unit = ''mi'', mass_unit = ''lb'',
      pressure_unit = ''psi'', volume_unit = ''gal'', wind_speed_unit = ''mph''\<rparr>"
proof (intro conjI impI)
  show "get_unit_system ''metric'' = Inr METRIC_SYSTEM"
    by (simp add: get_unit_system_def CONF_UNIT_SYSTEM_METRIC_def
        CONF_UNIT_SYSTEM_US_CUSTOMARY_def)
  show "get_unit_system ''us_customary'' = Inr US_CUSTOMARY_SYSTEM"
    by (simp add: get_unit_system_def CONF_UNIT_SYSTEM_US_CUSTOMARY_def)
  show "get_unit_system key =
      Inl (ValueError (''`'' @ key @ ''` is not a valid unit system key''))"
    if "key \<noteq> ''metric'' \<and> key \<noteq> ''us_customary''"
    using that
    by (simp add: get_unit_system_def CONF_UNIT_SYSTEM_METRIC_def
        CONF_UNIT_SYSTEM_US_CUSTOMARY_def)
qed (rule METRIC_SYSTEM_eq US_CUSTOMARY_SYSTEM_eq)+

theorem get_unit_system_cases_witness:
  "get_unit_system ''imperial'' =
     Inl (ValueError (''`'' @ ''imperial'' @ ''` is not a valid unit system key'')) \<and>
   get_unit_system ''METRIC'' =
     Inl (ValueError (''`'' @ ''METRIC'' @ ''` is not a valid unit system key'')) \<and>
   get_unit_system ''metri'' =
     Inl (ValueError (''`'' @ ''metri'' @ ''` is not a valid unit system key''))"
  using get_unit_system_cases [of "''imperial''"] get_unit_system_cases [of "''METRIC''"]
    get_unit_system_cases [of "''metri''"]
  by simp

text \<open>
  C4. \<open>validate_unit_system\<close> lower-cases its input, rewrites \<open>imperial\<close> to
  \<open>us_customary\<close>, accepts \<open>metric\<close> and \<open>us_customary\<close> and rejects every other value;
  it gives the same result on a string and on its lower-case form.
\<close>

theorem validate_unit_system_cases:
  "validate_unit_system v =
     (if map lower_char v = ''imperial'' \<or> map lower_char v = ''us_customary''
      then Inr ''us_customary''
      else if map lower_char v = ''metric'' then Inr ''metric''
      else Inl Invalid) \<and>
   validate_unit_system (map lower_char v) = validate_unit_system v"
proof -
  have eq: "validate_unit_system x =
     (if map lower_char x = ''imperial'' \<or> map lower_char x = ''us_customary''
      then Inr ''us_customary''
      else if map lower_char x = ''metric'' then Inr ''metric''
      else Inl Invalid)" for x
    by (simp add: validate_unit_system_def Lower_def deprecated_unit_system_def
        CONF_UNIT_SYSTEM_IMPERIAL_def CONF_UNIT_SYSTEM_METRIC_def
        CONF_UNIT_SYSTEM_US_CUSTOMARY_def)
  have "map lower_char (map lower_char v) = map lower_char v"
    by (simp add: lower_char_idem)
  then have "validate_unit_system (map lower_char v) = validate_unit_system v"
    by (simp only: eq)
  with eq [of v] show ?thesis by (rule conjI)
qed

theorem validate_unit_system_cases_witness:
  "validate_unit_system ''IMPERIAL'' = Inr ''us_customary'' \<and>
   validate_unit_system ''Imperial'' = Inr ''us_customary'' \<and>
   validate_unit_system ''imperial'' = Inr ''us_customary'' \<and>
   validate_unit_system ''US_CUSTOMARY'' = Inr ''us_customary'' \<and>
   validate_unit_system ''Metric'' = Inr ''metric'' \<and>
   validate_unit_system ''metric'' = Inr ''metric'' \<and>
   validate_unit_system ''kelvin-system'' = Inl Invalid \<and>
   validate_unit_system '''' = Inl Invalid"
proof -
  note c = validate_unit_system_cases [THEN conjunct1]
  have "validate_unit_system ''IMPERIAL'' = Inr ''us_customary''"
    using c [of "''IMPERIAL''"] by (simp add: Lower_examples del: list.map)
  moreover have "validate_unit_system ''Imperial'' = Inr ''us_customary''"
    using c [of "''Imperial''"] by (simp add: Lower_examples del: list.map)
  moreover have "validate_unit_system ''imperial'' = Inr ''us_customary''"
    using c [of "''imperial''"] by (simp add: Lower_examples del: list.map)
  moreover have "validate_unit_system ''US_CUSTOMARY'' = Inr ''us_customary''"
    using c [of "''US_CUSTOMARY''"] by (simp add: Lower_examples del: list.map)
  moreover have "validate_unit_system ''Metric'' = Inr ''metric''"
    using c [of "''Metric''"] by (simp add: Lower_examples del: list.map)
  moreover have "validate_unit_system ''metric'' = Inr ''metric''"
    using c [of "''metric''"] by (simp add: Lower_examples del: list.map)
  moreover have "validate_unit_system ''kelvin-system'' = Inl Invalid"
    using c [of "''kelvin-system''"] by (simp add: Lower_examples del: list.map)
  moreover have "validate_unit_system '''' = Inl Invalid"
    using c [of "''''"] by simp
  ultimately show ?thesis by blast
qed

section \<open>Deprecated properties\<close>

text \<open>
  C5. \<open>name\<close> returns \<open>imperial\<close> on the US-customary instance and the stored name on
  every other object; \<open>is_metric\<close> is true exactly on the metric instance; each access
  appends one notice to the sink and returns its value all the same.
\<close>

theorem deprecated_accessors:
  "fst (UnitSystem_name self s) =
     (if oid self = oid US_CUSTOMARY_SYSTEM then ''imperial'' else priv_name self) \<and>
   fst (UnitSystem_name US_CUSTOMARY_SYSTEM s) = ''imperial'' \<and>
   fst (UnitSystem_is_metric self s) = (oid self = oid METRIC_SYSTEM) \<and>
   fst (UnitSystem_is_metric METRIC_SYSTEM s) \<and>
   (\<exists>what. snd (UnitSystem_name self s) = s @ [(what, False)]) \<and>
   (\<exists>what. snd (UnitSystem_is_metric self s) = s @ [(what, False)])"
  by (simp add: UnitSystem_name_def UnitSystem_is_metric_def report_def Let_def
      IMPERIAL_SYSTEM_def CONF_UNIT_SYSTEM_IMPERIAL_def)

theorem deprecated_accessors_witness:
  "fst (UnitSystem_name METRIC_SYSTEM []) = ''metric'' \<and>
   fst (UnitSystem_name (US_CUSTOMARY_SYSTEM\<lparr>oid := 2\<rparr>) []) = ''us_customary'' \<and>
   \<not> fst (UnitSystem_is_metric US_CUSTOMARY_SYSTEM []) \<and>
   \<not> fst (UnitSystem_is_metric (METRIC_SYSTEM\<lparr>oid := 2\<rparr>) []) \<and>
   length (snd (UnitSystem_name METRIC_SYSTEM [])) = 1 \<and>
   length (snd (UnitSystem_is_metric METRIC_SYSTEM (snd (UnitSystem_name METRIC_SYSTEM [])))) = 2"
proof -
  note a = deprecated_accessors [of METRIC_SYSTEM "[]"]
  note b = deprecated_accessors [of "US_CUSTOMARY_SYSTEM\<lparr>oid := 2\<rparr>" "[]"]
  note c = deprecated_accessors [of US_CUSTOMARY_SYSTEM "[]"]
  note d = deprecated_accessors [of "METRIC_SYSTEM\<lparr>oid := 2\<rparr>" "[]"]
  note e = deprecated_accessors [of METRIC_SYSTEM "snd (UnitSystem_name METRIC_SYSTEM [])"]
  have ids: "oid METRIC_SYSTEM = 0" "oid US_CUSTOMARY_SYSTEM = 1"
    "priv_name METRIC_SYSTEM = ''metric''" "priv_name US_CUSTOMARY_SYSTEM = ''us_customary''"
    by (simp_all add: METRIC_SYSTEM_eq US_CUSTOMARY_SYSTEM_eq)
  from a have 1: "fst (UnitSystem_name METRIC_SYSTEM []) = ''metric''" by (simp add: ids)
  from b have 2: "fst (UnitSystem_name (US_CUSTOMARY_SYSTEM\<lparr>oid := 2\<rparr>) []) = ''us_customary''"
    by (simp add: ids)
  from c have 3: "\<not> fst (UnitSystem_is_metric US_CUSTOMARY_SYSTEM [])" by (simp add: ids)
  from d have 4: "\<not> fst (UnitSystem_is_metric (METRIC_SYSTEM\<lparr>oid := 2\<rparr>) [])" by (simp add: ids)
  from a obtain w1 where w1: "snd (UnitSystem_name METRIC_SYSTEM []) = [] @ [(w1, False)]"
    by blast
  then have 5: "length (snd (UnitSystem_name METRIC_SYSTEM [])) = 1" by simp
  from e obtain w2 where "snd (UnitSystem_is_metric METRIC_SYSTEM (snd (UnitSystem_name METRIC_SYSTEM []))) =
      snd (UnitSystem_name METRIC_SYSTEM []) @ [(w2, False)]"
    by blast
  with 5 have 6: "length (snd (UnitSystem_is_metric METRIC_SYSTEM (snd (UnitSystem_name METRIC_SYSTEM [])))) = 2"
    by simp
  from 1 2 3 4 5 6 show ?thesis by blast
qed

section \<open>Export\<close>

text \<open>
  C6. \<open>as_dict\<close> has exactly the seven category keys, each mapped to the unit the bundle
  stores for it; on the metric instance it is the mapping of the spec.
\<close>

theorem as_dict_seven_keys:
  "dom (as_dict self) =
     {LENGTH, ACCUMULATED_PRECIPITATION, MASS, PRESSURE, TEMPERATURE, VOLUME, WIND_SPEED} \<and>
   card (dom (as_dict self)) = 7 \<and>
   as_dict self LENGTH = Some (length_unit self) \<and>
   as_dict self ACCUMULATED_PRECIPITATION = Some (accumulated_precipitation_unit self) \<and>
   as_dict self MASS = Some (mass_unit self) \<and>
   as_dict self PRESSURE = Some (pressure_unit self) \<and>
   as_dict self TEMPERATURE = Some (temperature_unit self) \<and>
   as_dict self VOLUME = Some (volume_unit self) \<and>
   as_dict self WIND_SPEED = Some (wind_speed_unit self) \<and>
   as_dict METRIC_SYSTEM =
     [''length'' \<mapsto> ''km'', ''accumulated_precipitation'' \<mapsto> ''mm'', ''mass'' \<mapsto> ''g'',
      ''pressure'' \<mapsto> ''Pa'', ''temperature'' \<mapsto> [CHR 0xB0, CHR ''C''], ''volume'' \<mapsto> ''L'',
      ''wind_speed'' \<mapsto> ''m/s'']"
proof (intro conjI)
  show "dom (as_dict self) =
     {LENGTH, ACCUMULATED_PRECIPITATION, MASS, PRESSURE, TEMPERATURE, VOLUME, WIND_SPEED}"
    by (auto simp: as_dict_def)
  then show "card (dom (as_dict self)) = 7"
    by (simp add: category_defs)
  show "as_dict METRIC_SYSTEM =
     [''length'' \<mapsto> ''km'', ''accumulated_precipitation'' \<mapsto> ''mm'', ''mass'' \<mapsto> ''g'',
      ''pressure'' \<mapsto> ''Pa'', ''temperature'' \<mapsto> [CHR 0xB0, CHR ''C''], ''volume'' \<mapsto> ''L'',
      ''wind_speed'' \<mapsto> ''m/s'']"
    by (simp add: as_dict_def METRIC_SYSTEM_eq category_defs)
qed (simp_all add: as_dict_def category_defs)

theorem as_dict_seven_keys_witness:
  "as_dict US_CUSTOMARY_SYSTEM ''length'' = Some ''mi'' \<and>
   as_dict US_CUSTOMARY_SYSTEM ''accumulated_precipitation'' = Some ''in'' \<and>
   as_dict US_CUSTOMARY_SYSTEM ''mass'' = Some ''lb'' \<and>
   as_dict US_CUSTOMARY_SYSTEM ''pressure'' = Some ''psi'' \<and>
   as_dict US_CUSTOMARY_SYSTEM ''temperature'' = Some [CHR 0xB0, CHR ''F''] \<and>
   as_dict US_CUSTOMARY_SYSTEM ''volume'' = Some ''gal'' \<and>
   as_dict US_CUSTOMARY_SYSTEM ''wind_speed'' = Some ''mph'' \<and>
   as_dict US_CUSTOMARY_SYSTEM ''name'' = None"
proof -
  note k = as_dict_seven_keys [of US_CUSTOMARY_SYSTEM]
  from k have "''name'' \<notin> dom (as_dict US_CUSTOMARY_SYSTEM)"
    by (simp add: category_defs)
  then have "as_dict US_CUSTOMARY_SYSTEM ''name'' = None" by blast
  with k show ?thesis
    by (simp add: category_defs US_CUSTOMARY_SYSTEM_eq)
qed

section \<open>Conversion\<close>

text \<open>
  C2. Each of the six conversion methods raises a \<open>TypeError\<close> whose message starts with
  \<open>str\<close> of the value when the value is not a number, and then makes no call of a
  converter; on a number it returns what the category's converter gives for the value,
  \<open>from_unit\<close> and the bundle's unit, whatever \<open>from_unit\<close> is.
\<close>

theorem conversion_methods:
  "(\<not> isinstance_Number x \<longrightarrow>
      UnitSystem_temperature fs conv self x u log =
        (Inl (TypeError (py_str fs x @ '' is not a numeric value.'')), log) \<and>
      UnitSystem_length fs conv self x u log =
        (Inl (TypeError (py_str fs x @ '' is not a numeric value.'')), log) \<and>
      UnitSystem_accumulated_precipitation fs conv self x u log =
        (Inl (TypeError (py_str fs x @ '' is not a numeric value.'')), log) \<and>
      UnitSystem_pressure fs conv self x u log =
        (Inl (TypeError (py_str fs x @ '' is not a numeric value.'')), log) \<and>
      UnitSystem_wind_speed fs conv self x u log =
        (Inl (TypeError (py_str fs x @ '' is not a numeric value.'')), log) \<and>
      UnitSystem_volume fs conv self x u log =
        (Inl (TypeError (py_str fs x @ '' is not a numeric value.'')), log)) \<and>
   (isinstance_Number x \<longrightarrow>
      UnitSystem_temperature fs conv self x u log =
        (Inr (conv TemperatureConverter x u (temperature_unit self)),
         log @ [(TemperatureConverter, x, u, temperature_unit self)]) \<and>
      UnitSystem_length fs conv self x u log =
        (Inr (conv DistanceConverter x u (length_unit self)),
         log @ [(DistanceConverter, x, u, length_unit self)]) \<and>
      UnitSystem_accumulated_precipitation fs conv self x u log =
        (Inr (conv DistanceConverter x u (accumulated_precipitation_unit self)),
         log @ [(DistanceConverter, x, u, accumulated_precipitation_unit self)]) \<and>
      UnitSystem_pressure fs conv self x u log =
        (Inr (conv PressureConverter x u (pressure_unit self)),
         log @ [(PressureConverter, x, u, pressure_unit self)]) \<and>
      UnitSystem_wind_speed fs conv self x u log =
        (Inr (conv SpeedConverter x u (wind_speed_unit self)),
         log @ [(SpeedConverter, x, u, wind_speed_unit self)]) \<and>
      UnitSystem_volume fs conv self x u log =
        (Inr (conv VolumeConverter x u (volume_unit self)),
         log @ [(VolumeConverter, x, u, volume_unit self)]))"
  by (simp add: method_defs not_numeric_def call_convert_def)

theorem conversion_methods_witness:
  "UnitSystem_temperature (\<lambda>x::unit. []) (\<lambda>c x f t. (c, x, f, t)) METRIC_SYSTEM (PyStr ''warm'')
       ''K'' [] =
     (Inl (TypeError ''warm is not a numeric value.''), []) \<and>
   UnitSystem_volume (\<lambda>x::unit. []) (\<lambda>c x f t. (c, x, f, t)) METRIC_SYSTEM PyNone ''gal'' [] =
     (Inl (TypeError ''None is not a numeric value.''), []) \<and>
   UnitSystem_pressure (\<lambda>x::unit. []) (\<lambda>c x f t. (c, x, f, t)) METRIC_SYSTEM (PyInt 3)
       ''no such unit'' [] =
     (Inr (PressureConverter, PyInt 3, ''no such unit'', ''Pa''),
      [(PressureConverter, PyInt 3, ''no such unit'', ''Pa'')]) \<and>
   UnitSystem_wind_speed (\<lambda>x::unit. []) (\<lambda>c x f t. (c, x, f, t)) US_CUSTOMARY_SYSTEM
       (PyFloat ()) ''m/s'' [] =
     (Inr (SpeedConverter, PyFloat (), ''m/s'', ''mph''),
      [(SpeedConverter, PyFloat (), ''m/s'', ''mph'')])"
  using conversion_methods [of "PyStr ''warm''" "\<lambda>x::unit. []" "\<lambda>c x f t. (c, x, f, t)"
      METRIC_SYSTEM "''K''" "[]"]
    conversion_methods [of PyNone "\<lambda>x::unit. []" "\<lambda>c x f t. (c, x, f, t)"
      METRIC_SYSTEM "''gal''" "[]"]
    conversion_methods [of "PyInt 3" "\<lambda>x::unit. []" "\<lambda>c x f t. (c, x, f, t)"
      METRIC_SYSTEM "''no such unit''" "[]"]
    conversion_methods [of "PyFloat ()" "\<lambda>x::unit. []" "\<lambda>c x f t. (c, x, f, t)"
      US_CUSTOMARY_SYSTEM "''m/s''" "[]"]
  by (simp add: METRIC_SYSTEM_eq US_CUSTOMARY_SYSTEM_eq)

text \<open>
  C7. On a number, \<open>accumulated_precipitation\<close> does what the spec describes: it calls the
  distance converter with the bundle's accumulated-precipitation unit as the target. The
  method \<open>length\<close> calls the same converter, so the two agree when the two units do.
\<close>

theorem accumulated_precipitation_uses_distance_converter:
  "isinstance_Number x \<Longrightarrow>
   UnitSystem_accumulated_precipitation fs conv self x u log =
     spec_accumulated_precipitation conv self x u log \<and>
   UnitSystem_length fs conv self x u log =
     (Inr (conv DistanceConverter x u (length_unit self)),
      log @ [(DistanceConverter, x, u, length_unit self)]) \<and>
   (accumulated_precipitation_unit self = length_unit self \<longrightarrow>
      UnitSystem_accumulated_precipitation fs conv self x u log =
        UnitSystem_length fs conv self x u log)"
  by (simp add: method_defs spec_accumulated_precipitation_def call_convert_def)

theorem accumulated_precipitation_uses_distance_converter_witness:
  "UnitSystem_accumulated_precipitation (\<lambda>x::unit. []) (\<lambda>c x f t. (c, x, f, t)) METRIC_SYSTEM
       (PyInt 12) ''in'' [] =
     (Inr (DistanceConverter, PyInt 12, ''in'', ''mm''),
      [(DistanceConverter, PyInt 12, ''in'', ''mm'')]) \<and>
   UnitSystem_length (\<lambda>x::unit. []) (\<lambda>c x f t. (c, x, f, t)) METRIC_SYSTEM (PyInt 12) ''in'' [] =
     (Inr (DistanceConverter, PyInt 12, ''in'', ''km''),
      [(DistanceConverter, PyInt 12, ''in'', ''km'')])"
proof -
  have n: "isinstance_Number (PyInt 12 :: unit pyval)" by simp
  from accumulated_precipitation_uses_distance_converter
    [OF n, of "\<lambda>x::unit. []" "\<lambda>c x f t. (c, x, f, t)" METRIC_SYSTEM "''in''" "[]"]
  show ?thesis
    by (simp add: spec_accumulated_precipitation_def METRIC_SYSTEM_eq)
qed

text \<open>
  C10. A boolean passes the check of every conversion method: no \<open>TypeError\<close> is raised
  and the boolean itself is handed to the converter.
\<close>

theorem booleans_are_numbers:
  "isinstance_Number (PyBool b) \<and>
   UnitSystem_temperature fs conv self (PyBool b) u log =
     (Inr (conv TemperatureConverter (PyBool b) u (temperature_unit self)),
      log @ [(TemperatureConverter, PyBool b, u, temperature_unit self)]) \<and>
   UnitSystem_length fs conv self (PyBool b) u log =
     (Inr (conv DistanceConverter (PyBool b) u (length_unit self)),
      log @ [(DistanceConverter, PyBool b, u, length_unit self)]) \<and>
   UnitSystem_accumulated_precipitation fs conv self (PyBool b) u log =
     (Inr (conv DistanceConverter (PyBool b) u (accumulated_precipitation_unit self)),
      log @ [(DistanceConverter, PyBool b, u, accumulated_precipitation_unit self)]) \<and>
   UnitSystem_pressure fs conv self (PyBool b) u log =
     (Inr (conv PressureConverter (PyBool b) u (pressure_unit self)),
      log @ [(PressureConverter, PyBool b, u, pressure_unit self)]) \<and>
   UnitSystem_wind_speed fs conv self (PyBool b) u log =
     (Inr (conv SpeedConverter (PyBool b) u (wind_speed_unit self)),
      log @ [(SpeedConverter, PyBool b, u, wind_speed_unit self)]) \<and>
   UnitSystem_volume fs conv self (PyBool b) u log =
     (Inr (conv VolumeConverter (PyBool b) u (volume_unit self)),
      log @ [(VolumeConverter, PyBool b, u, volume_unit self)])"
  by (simp add: method_defs call_convert_def)

theorem booleans_are_numbers_witness:
  "UnitSystem_temperature (\<lambda>x::unit. []) (\<lambda>c x f t. (c, x, f, t)) US_CUSTOMARY_SYSTEM
       (PyBool True) ''K'' [] =
     (Inr (TemperatureConverter, PyBool True, ''K'', [CHR 0xB0, CHR ''F'']),
      [(TemperatureConverter, PyBool True, ''K'', [CHR 0xB0, CHR ''F''])]) \<and>
   UnitSystem_volume (\<lambda>x::unit. []) (\<lambda>c x f t. (c, x, f, t)) US_CUSTOMARY_SYSTEM
       (PyBool False) ''L'' [] =
     (Inr (VolumeConverter, PyBool False, ''L'', ''gal''),
      [(VolumeConverter, PyBool False, ''L'', ''gal'')])"
  using booleans_are_numbers [of True "\<lambda>x::unit. []" "\<lambda>c x f t. (c, x, f, t)"
      US_CUSTOMARY_SYSTEM "''K''" "[]"]
    booleans_are_numbers [of False "\<lambda>x::unit. []" "\<lambda>c x f t. (c, x, f, t)"
      US_CUSTOMARY_SYSTEM "''L''" "[]"]
  by (simp add: US_CUSTOMARY_SYSTEM_eq)

end
